theory Spec2Isabelle
  imports Complex_Main "HOL-Library.Multiset" "HOL-Library.List_Lexorder" "HOL-Library.Char_ord"
begin

section \<open>Python values\<close>

text \<open>
  The scripts are dynamically typed: a contract call, a field of a parsed JSON5 file and
  the default handed to \<^verbatim>\<open>dict.get\<close> are all plain Python objects. \<open>pyval\<close> is the part of
  that universe the scripts can meet. A float is the real number it denotes or one of the
  three special values JSON5 can write (\<^verbatim>\<open>NaN\<close>, \<^verbatim>\<open>Infinity\<close>, \<^verbatim>\<open>-Infinity\<close>); rounding is not
  modelled. A dict is an association list in insertion order, with distinct keys.
  \<open>PType\<close> is a class object such as \<^verbatim>\<open>int\<close> or \<^verbatim>\<open>str\<close>.
\<close>

datatype pyfloat = Finite real | NaN | PosInf | NegInf

datatype pyval =
    PNone
  | PBool bool
  | PInt int
  | PFloat pyfloat
  | PStr string
  | PList "pyval list"
  | PDict "(string \<times> pyval) list"
  | PType string

section \<open>utils/web3.py: retry with exponential backoff\<close>

text \<open>
  \<^verbatim>\<open>func\<close> is a callable with side effects on the remote ledger: it takes the state of the
  world and returns either the exception it raised (\<open>Inl\<close>, any instance of \<^verbatim>\<open>Exception\<close>) or
  its value (\<open>Inr\<close>), with the new state.

  The two effects of \<^verbatim>\<open>_retry_with_backoff\<close> are recorded in the order they happen:
  \<open>Attempt name outcome\<close> for one call \<^verbatim>\<open>func()\<close> made on behalf of \<^verbatim>\<open>operation_name\<close>, and
  \<open>Sleep d\<close> for one \<^verbatim>\<open>time.sleep(d)\<close> that returned.
\<close>

type_synonym ('s, 'e, 'a) callable = "'s \<Rightarrow> ('e + 'a) \<times> 's"

datatype ('e, 'a) event = Attempt string "'e + 'a" | Sleep real

text \<open>
  What can leave the functions of this module as an exception:
  \<^item> \<open>RetryExhausted operation_name max_retries last_exception\<close> is the \<^verbatim>\<open>Exception\<close> of
    lines 81-83, whose message is built from \<^verbatim>\<open>operation_name\<close>, \<^verbatim>\<open>max_retries\<close> and
    \<^verbatim>\<open>last_exception\<close> and whose cause (\<^verbatim>\<open>from last_exception\<close>) is \<^verbatim>\<open>last_exception\<close>;
  \<^item> \<open>SleepError e\<close> is an exception of \<^verbatim>\<open>time.sleep\<close>; the call stands inside the
    \<^verbatim>\<open>except\<close> block, so nothing catches it;
  \<^item> \<open>Raised e\<close> is an exception of the web3 library raised outside any retry loop.
\<close>

datatype sleep_error = ValueError | OverflowError

datatype 'e exn = RetryExhausted string int "'e option" | SleepError sleep_error | Raised 'e

text \<open>
  \<^verbatim>\<open>time.sleep\<close> belongs to the standard library, not to the repository. The functions of
  this module take it as their first argument \<open>sleep\<close>: \<open>sleep d\<close> is \<open>None\<close> when the call
  \<^verbatim>\<open>time.sleep(d)\<close> returns and \<open>Some e\<close> when it raises \<open>e\<close> without sleeping. Nothing below
  assumes which delays are accepted.

  \<open>time_sleep\<close> is what CPython does: the delay is first converted to a signed 64-bit
  count of nanoseconds, with \<^verbatim>\<open>OverflowError\<close> when it does not fit, and a negative delay is
  then refused with \<^verbatim>\<open>ValueError\<close>. (The rounding of the conversion is not modelled.)
\<close>

definition time_sleep :: "real \<Rightarrow> sleep_error option" where
  "time_sleep secs =
     (if secs * 10 ^ 9 < - (2 ^ 63) \<or> 2 ^ 63 \<le> secs * 10 ^ 9 then Some OverflowError
      else if secs < 0 then Some ValueError
      else None)"

text \<open>\<^verbatim>\<open>range(n)\<close>: the integers \<open>0, 1, ..., n - 1\<close>, empty when \<open>n \<le> 0\<close>.\<close>

definition py_range :: "int \<Rightarrow> int list" where
  "py_range n = map int [0..<nat n]"

text \<open>
  The \<^verbatim>\<open>for attempt in range(max_retries)\<close> loop of \<^verbatim>\<open>_retry_with_backoff\<close>, by recursion on
  the attempts still to come. The loop variables \<^verbatim>\<open>current_delay\<close> and \<^verbatim>\<open>last_exception\<close> are
  arguments. The empty list is the exit of the loop, where the exception of line 81 is
  raised.
\<close>

fun retry_loop ::
  "(real \<Rightarrow> sleep_error option) \<Rightarrow> ('s, 'e, 'a) callable \<Rightarrow> int \<Rightarrow> real \<Rightarrow> string \<Rightarrow> int list
     \<Rightarrow> real \<Rightarrow> 'e option \<Rightarrow> 's \<Rightarrow> ('e exn + 'a) \<times> 's \<times> ('e, 'a) event list" where
  "retry_loop sleep func max_retries retry_backoff operation_name [] current_delay
       last_exception s =
     (Inl (RetryExhausted operation_name max_retries last_exception), s, [])"
| "retry_loop sleep func max_retries retry_backoff operation_name (attempt # rest) current_delay
       last_exception s =
     (case func s of
        (Inr v, s') \<Rightarrow> (Inr v, s', [Attempt operation_name (Inr v)])
      | (Inl e, s') \<Rightarrow>
          if attempt < max_retries - 1 then
            (case sleep current_delay of
               Some x \<Rightarrow> (Inl (SleepError x), s', [Attempt operation_name (Inl e)])
             | None \<Rightarrow>
                 (case retry_loop sleep func max_retries retry_backoff operation_name rest
                         (current_delay * retry_backoff) (Some e) s' of
                    (r, s'', evs) \<Rightarrow>
                      (r, s'', Attempt operation_name (Inl e) # Sleep current_delay # evs)))
          else
            (case retry_loop sleep func max_retries retry_backoff operation_name rest
                    current_delay (Some e) s' of
               (r, s'', evs) \<Rightarrow> (r, s'', Attempt operation_name (Inl e) # evs)))"

definition retry_with_backoff ::
  "(real \<Rightarrow> sleep_error option) \<Rightarrow> ('s, 'e, 'a) callable \<Rightarrow> int \<Rightarrow> real \<Rightarrow> real \<Rightarrow> string \<Rightarrow> 's
     \<Rightarrow> ('e exn + 'a) \<times> 's \<times> ('e, 'a) event list" where
  "retry_with_backoff sleep func max_retries retry_delay retry_backoff operation_name s =
     retry_loop sleep func max_retries retry_backoff operation_name (py_range max_retries)
       retry_delay None s"

text \<open>The state after \<open>k\<close> calls of \<open>func\<close>, and what call number \<open>k\<close> (from 0) returns or raises.\<close>

primrec after_calls :: "('s, 'e, 'a) callable \<Rightarrow> nat \<Rightarrow> 's \<Rightarrow> 's" where
  "after_calls func 0 s = s"
| "after_calls func (Suc k) s = after_calls func k (snd (func s))"

definition call_outcome :: "('s, 'e, 'a) callable \<Rightarrow> 's \<Rightarrow> nat \<Rightarrow> 'e + 'a" where
  "call_outcome func s k = fst (func (after_calls func k s))"

fun is_attempt :: "('e, 'a) event \<Rightarrow> bool" where
  "is_attempt (Attempt _ _) = True"
| "is_attempt (Sleep _) = False"

fun sleeps :: "('e, 'a) event list \<Rightarrow> real list" where
  "sleeps [] = []"
| "sleeps (Sleep d # evs) = d # sleeps evs"
| "sleeps (Attempt _ _ # evs) = sleeps evs"


section \<open>utils/web3.py: fetching the three fields\<close>









section \<open>Strings, paths and the outside world of the two directory scripts\<close>

definition startswith :: "string \<Rightarrow> string \<Rightarrow> bool" where
  "startswith s prefix = (take (length prefix) s = prefix)"

definition endswith :: "string \<Rightarrow> string \<Rightarrow> bool" where
  "endswith s suffix = (length suffix \<le> length s \<and> drop (length s - length suffix) s = suffix)"

text \<open>\<^verbatim>\<open>needle in haystack\<close> on two strings.\<close>

fun is_substring :: "string \<Rightarrow> string \<Rightarrow> bool" where
  "is_substring needle [] = (needle = [])"
| "is_substring needle (c # s) = (startswith (c # s) needle \<or> is_substring needle s)"

text \<open>\<^verbatim>\<open>os.path.join(a, b)\<close> and \<^verbatim>\<open>os.path.split(p)[-1]\<close> on POSIX paths.\<close>

definition path_join :: "string \<Rightarrow> string \<Rightarrow> string" where
  "path_join a b =
     (if startswith b ''/'' then b
      else if a = [] \<or> endswith a ''/'' then a @ b
      else a @ ''/'' @ b)"

definition basename :: "string \<Rightarrow> string" where
  "basename p = rev (takeWhile (\<lambda>c. c \<noteq> CHR ''/'') (rev p))"

text \<open>
  Exceptions that can escape \<^verbatim>\<open>validate_tokens.py\<close>: the three built-in ones its own
  expressions raise, and whatever \<^verbatim>\<open>requests.head\<close> raises (connection refused, name not
  resolved, malformed URL, ...), kept as its text.
\<close>

datatype verror = TypeError | AttributeError | KeyError | RequestException string

text \<open>
  What the scripts see of the outside world during one run; the directory is a snapshot.
  \<^item> \<open>base_dir\<close>: the path \<^verbatim>\<open>os.path.join(os.path.dirname(__file__), "..", "mainnet")\<close>;
  \<^item> \<open>isdir\<close>: \<^verbatim>\<open>os.path.isdir(base_dir)\<close>;
  \<^item> \<open>listdir\<close>: \<^verbatim>\<open>os.listdir(base_dir)\<close>, in the order the file system gives;
  \<^item> \<open>load p\<close>: opening \<open>p\<close> and \<^verbatim>\<open>json5.load\<close> on it: the text of the exception, or the value;
  \<^item> \<open>requests_head u\<close>: \<^verbatim>\<open>requests.head(u)\<close>: the exception raised, or the headers of the
    response, as a lookup by header name;
  \<^item> \<open>now\<close>: \<^verbatim>\<open>datetime.now(timezone.utc).isoformat()\<close>;
  \<^item> \<open>write_result\<close>: how opening and writing the output file goes.
\<close>

datatype write_result =
    WriteOk
  | OpenFails string
  | DumpOSError string
  | DumpFails string

record world =
  base_dir :: string
  isdir :: bool
  listdir :: "string list"
  load :: "string \<Rightarrow> string + pyval"
  requests_head :: "pyval \<Rightarrow> verror + (string \<rightharpoonup> string)"
  now :: string
  write_result :: write_result

text \<open>
  The lines the scripts print, one constructor for each \<^verbatim>\<open>print\<close> of the sources:
  \<^item> \<open>ErrorReading filepath e\<close>: \<^verbatim>\<open>Error reading {filepath}: {e}\<close>
  \<^item> \<open>Missing filename missing\<close>: \<^verbatim>\<open>{filename} missing: {', '.join(missing)}\<close>
  \<^item> \<open>InvalidChainId\<close>: \<^verbatim>\<open>Invalid chainId.\<close>
  \<^item> \<open>IsInvalidAddress address\<close>: \<^verbatim>\<open>{address} is invalid address\<close>
  \<^item> \<open>IsNotAnImage logo_uri\<close>: \<^verbatim>\<open>{logo_uri} is not an image.\<close>
  \<^item> \<open>InvalidDecimals\<close>: \<^verbatim>\<open>Invalid decimals.\<close>
  \<^item> \<open>DirectoryNotFound\<close>: \<^verbatim>\<open>mainnet directory not found.\<close>
  \<^item> \<open>NoJsonFiles\<close>: \<^verbatim>\<open>No JSON files found in mainnet/\<close>
  \<^item> \<open>Validating n\<close>: \<^verbatim>\<open>Validating {n} files...\<close>
  \<^item> \<open>IsValid filename\<close>, \<open>IsInvalid filename\<close>: \<^verbatim>\<open>{filename} is valid.\<close>, \<^verbatim>\<open>{filename} is invalid.\<close>
  \<^item> \<open>Adding n\<close>: \<^verbatim>\<open>Adding {n} tokens...\<close>
  \<^item> \<open>Created file_out\<close>: \<^verbatim>\<open>JSON5 file '{file_out}' created successfully.\<close>
  \<^item> \<open>ErrorWriting e\<close>: \<^verbatim>\<open>Error writing to file: {e}\<close>
  \<^item> \<open>UnexpectedError e\<close>: \<^verbatim>\<open>An unexpected error occurred: {e}\<close>
\<close>

datatype message =
    ErrorReading string string
  | Missing string "string list"
  | InvalidChainId
  | IsInvalidAddress pyval
  | IsNotAnImage pyval
  | InvalidDecimals
  | DirectoryNotFound
  | NoJsonFiles
  | Validating nat
  | IsValid string
  | IsInvalid string
  | Adding nat
  | Created string
  | ErrorWriting string
  | UnexpectedError string

text \<open>
  How a run of \<^verbatim>\<open>main()\<close> ends: \<^verbatim>\<open>sys.exit(n)\<close>, a return from \<^verbatim>\<open>main\<close> with a value (after
  which the script ends), or an exception nobody catches. The interpreter turns these
  into the exit status of the process: \<open>n\<close>, 0 and 1.
\<close>

datatype outcome = SysExit int | Returned pyval | Uncaught verror

fun exit_status :: "outcome \<Rightarrow> int" where
  "exit_status (SysExit n) = n"
| "exit_status (Returned _) = 0"
| "exit_status (Uncaught _) = 1"

definition is_json_name :: "string \<Rightarrow> bool" where
  "is_json_name f = (endswith f ''.json'' \<or> endswith f ''.jsonc'')"

text \<open>
  \<^verbatim>\<open>[f for f in sorted(os.listdir(base_dir)) if f.endswith(".json") or f.endswith(".jsonc")]\<close>;
  \<^verbatim>\<open>sorted\<close> on strings is the lexicographic order on code points, which the order on
  \<open>string\<close> is for UTF-8.
\<close>

definition json_files :: "world \<Rightarrow> string list" where
  "json_files w = filter is_json_name (sort (listdir w))"

section \<open>validate_tokens.py\<close>

definition REQUIRED_FIELDS :: "string list" where
  "REQUIRED_FIELDS = [''chainId'', ''address'', ''name'', ''symbol'', ''decimals'', ''logoURI'']"

definition is_valid_address :: "string \<Rightarrow> bool" where
  "is_valid_address address =
     (startswith address ''0x''
      \<and> length address = 42
      \<and> list_all (\<lambda>c. c \<in> set ''0123456789ABCDEFabcdef'') (drop 2 address))"

text \<open>
  \<^verbatim>\<open>is_valid_address\<close> is annotated for a string but is called with whatever the file holds
  under \<^verbatim>\<open>address\<close>: on anything but a string the first method lookup,
  \<^verbatim>\<open>address.startswith\<close>, raises (\<^verbatim>\<open>str.startswith("0x")\<close> on the class \<^verbatim>\<open>str\<close> itself lacks
  an argument).
\<close>

fun call_is_valid_address :: "pyval \<Rightarrow> verror + bool" where
  "call_is_valid_address (PStr address) = Inr (is_valid_address address)"
| "call_is_valid_address (PType _) = Inl TypeError"
| "call_is_valid_address _ = Inl AttributeError"

definition image_formats :: "string list" where
  "image_formats = [''image/png'', ''image/jpeg'', ''image/jpg'', ''image/svg+xml'']"

text \<open>
  \<^verbatim>\<open>is_url_image\<close>: an exception of \<^verbatim>\<open>requests.head\<close> is not caught, and
  \<^verbatim>\<open>r.headers["content-type"]\<close> raises \<^verbatim>\<open>KeyError\<close> when the response has no such header.
\<close>

definition is_url_image :: "world \<Rightarrow> pyval \<Rightarrow> verror + bool" where
  "is_url_image w image_url =
     (case requests_head w image_url of
        Inl x \<Rightarrow> Inl x
      | Inr headers \<Rightarrow>
          (case headers ''content-type'' of
             None \<Rightarrow> Inl KeyError
           | Some content_type \<Rightarrow> Inr (content_type \<in> set image_formats)))"

text \<open>
  \<^verbatim>\<open>field in data\<close> for a string \<open>field\<close>: key of a dict, element of a list, substring of a
  string; any other value is not iterable and the test raises \<^verbatim>\<open>TypeError\<close>.
\<close>

fun is_container :: "pyval \<Rightarrow> bool" where
  "is_container (PDict _) = True"
| "is_container (PList _) = True"
| "is_container (PStr _) = True"
| "is_container _ = False"

fun py_in :: "string \<Rightarrow> pyval \<Rightarrow> bool" where
  "py_in field (PDict kvs) = (field \<in> set (map fst kvs))"
| "py_in field (PList xs) = (PStr field \<in> set xs)"
| "py_in field (PStr s) = is_substring field s"
| "py_in field _ = False"

definition missing_fields :: "pyval \<Rightarrow> verror + string list" where
  "missing_fields data =
     (if is_container data then Inr (filter (\<lambda>field. \<not> py_in field data) REQUIRED_FIELDS)
      else Inl TypeError)"

text \<open>\<^verbatim>\<open>data.get(key, default)\<close>: only a dict has the method.\<close>

fun py_get :: "pyval \<Rightarrow> string \<Rightarrow> pyval \<Rightarrow> verror + pyval" where
  "py_get (PDict kvs) key dflt =
     Inr (case map_of kvs key of Some v \<Rightarrow> v | None \<Rightarrow> dflt)"
| "py_get _ key dflt = Inl AttributeError"

text \<open>
  Comparing a value with an integer literal. \<^verbatim>\<open>==\<close> never raises; a bool counts as 0 or 1,
  a float compares by value, and a value of any other type is different from an integer.
  \<^verbatim>\<open><\<close> and \<^verbatim>\<open>></\<close> raise \<^verbatim>\<open>TypeError\<close> on a value that is not a number; \<^verbatim>\<open>NaN\<close> is neither
  smaller nor greater than anything.
\<close>

fun py_eq_int :: "pyval \<Rightarrow> int \<Rightarrow> bool" where
  "py_eq_int (PInt i) k = (i = k)"
| "py_eq_int (PBool b) k = ((if b then 1 else 0) = k)"
| "py_eq_int (PFloat (Finite r)) k = (r = of_int k)"
| "py_eq_int _ k = False"

fun py_lt_int :: "pyval \<Rightarrow> int \<Rightarrow> verror + bool" where
  "py_lt_int (PInt i) k = Inr (i < k)"
| "py_lt_int (PBool b) k = Inr ((if b then 1 else 0) < k)"
| "py_lt_int (PFloat (Finite r)) k = Inr (r < of_int k)"
| "py_lt_int (PFloat NegInf) k = Inr True"
| "py_lt_int (PFloat _) k = Inr False"
| "py_lt_int _ k = Inl TypeError"

fun py_gt_int :: "pyval \<Rightarrow> int \<Rightarrow> verror + bool" where
  "py_gt_int (PInt i) k = Inr (i > k)"
| "py_gt_int (PBool b) k = Inr ((if b then 1 else 0) > k)"
| "py_gt_int (PFloat (Finite r)) k = Inr (r > of_int k)"
| "py_gt_int (PFloat PosInf) k = Inr True"
| "py_gt_int (PFloat _) k = Inr False"
| "py_gt_int _ k = Inl TypeError"

text \<open>\<^verbatim>\<open>decimals < 6 or decimals > 36\<close>; \<^verbatim>\<open>or\<close> evaluates its right side only when the left is false.\<close>

definition decimals_out_of_range :: "pyval \<Rightarrow> verror + bool" where
  "decimals_out_of_range decimals =
     (case py_lt_int decimals 6 of
        Inl x \<Rightarrow> Inl x
      | Inr True \<Rightarrow> Inr True
      | Inr False \<Rightarrow> py_gt_int decimals 36)"

text \<open>
  \<^verbatim>\<open>is_valid_file\<close> returns \<^verbatim>\<open>True\<close> or \<^verbatim>\<open>False\<close> or is left by an exception, and has printed
  some lines by then. \<open>or_raise r k\<close> continues with \<open>k\<close> on the value of \<open>r\<close>, or leaves with
  the exception \<open>r\<close> raised (nothing is printed on that path).
\<close>

definition or_raise ::
  "verror + 'a \<Rightarrow> ('a \<Rightarrow> (verror + bool) \<times> message list) \<Rightarrow> (verror + bool) \<times> message list" where
  "or_raise r k = (case r of Inl x \<Rightarrow> (Inl x, []) | Inr v \<Rightarrow> k v)"

definition is_valid_file :: "world \<Rightarrow> string \<Rightarrow> (verror + bool) \<times> message list" where
  "is_valid_file w filepath =
     (case load w filepath of
        Inl e \<Rightarrow> (Inr False, [ErrorReading filepath e])
      | Inr data \<Rightarrow>
          (let filename = basename filepath in
           or_raise (missing_fields data) (\<lambda>missing.
             if missing \<noteq> [] then (Inr False, [Missing filename missing])
             else
           or_raise (py_get data ''chainId'' (PType ''int'')) (\<lambda>chainId.
             if \<not> py_eq_int chainId 143 then (Inr False, [InvalidChainId])
             else
           or_raise (py_get data ''address'' (PType ''str'')) (\<lambda>address.
           or_raise (call_is_valid_address address) (\<lambda>address_ok.
             if \<not> address_ok then (Inr False, [IsInvalidAddress address])
             else
           or_raise (py_get data ''logoURI'' (PType ''str'')) (\<lambda>logo_uri.
           or_raise (is_url_image w logo_uri) (\<lambda>is_image.
             if \<not> is_image then (Inr False, [IsNotAnImage logo_uri])
             else
           or_raise (py_get data ''decimals'' (PType ''int'')) (\<lambda>decimals.
           or_raise (decimals_out_of_range decimals) (\<lambda>out_of_range.
             if out_of_range then (Inr False, [InvalidDecimals])
             else (Inr True, [])))))))))))"

text \<open>
  The \<^verbatim>\<open>for filename in json_files\<close> loop of \<^verbatim>\<open>main\<close>. \<^verbatim>\<open>main\<close> has no \<^verbatim>\<open>try\<close>: an exception
  that leaves \<^verbatim>\<open>is_valid_file\<close> leaves the loop and the script.
\<close>

fun validate_files :: "world \<Rightarrow> string list \<Rightarrow> outcome \<times> message list" where
  "validate_files w [] = (Returned PNone, [])"
| "validate_files w (filename # rest) =
     (case is_valid_file w (path_join (base_dir w) filename) of
        (Inl x, printed) \<Rightarrow> (Uncaught x, printed)
      | (Inr is_valid, printed) \<Rightarrow>
          (case validate_files w rest of
             (r, later) \<Rightarrow>
               (r, printed @ [if is_valid then IsValid filename else IsInvalid filename] @ later)))"

definition validate_main :: "world \<Rightarrow> outcome \<times> message list" where
  "validate_main w =
     (if \<not> isdir w then (SysExit 1, [DirectoryNotFound])
      else if json_files w = [] then (SysExit 0, [NoJsonFiles])
      else
        (case validate_files w (json_files w) of
           (r, printed) \<Rightarrow> (r, Validating (length (json_files w)) # printed)))"

section \<open>generate_tokenlists_file.py\<close>

text \<open>
  The loop that fills \<^verbatim>\<open>tokens\<close>: \<open>Inl (filepath, e)\<close> is the \<^verbatim>\<open>except\<close> branch taken at the
  first file that cannot be read, with the path and the text it prints.
\<close>

fun load_tokens :: "world \<Rightarrow> string list \<Rightarrow> pyval list \<Rightarrow> (string \<times> string) + pyval list" where
  "load_tokens w [] tokens = Inr tokens"
| "load_tokens w (filename # rest) tokens =
     (case load w (path_join (base_dir w) filename) of
        Inl e \<Rightarrow> Inl (path_join (base_dir w) filename, e)
      | Inr token_data \<Rightarrow> load_tokens w rest (tokens @ [token_data]))"

definition registry_data :: "pyval list \<Rightarrow> string \<Rightarrow> pyval" where
  "registry_data tokens timestamp =
     PDict [(''name'', PStr ''Monad Mainnet''),
            (''logoURI'', PStr ''https://raw.githubusercontent.com/monad-crypto/token-list/refs/heads/main/assets/monad.svg''),
            (''keywords'', PList [PStr ''monad mainnet'']),
            (''timestamp'', PStr timestamp),
            (''tokens'', PList tokens),
            (''version'', PDict [(''major'', PInt 0), (''minor'', PInt 0), (''patch'', PInt 1)])]"

definition file_out :: string where
  "file_out = ''tokenlist-mainnet.json''"

text \<open>
  The files of the working directory: a file holds a document that was written completely,
  or is \<open>Damaged\<close>: opened with mode \<^verbatim>\<open>"w"\<close>, which empties it, and not written to the end.
\<close>

datatype file_content = Document pyval | Damaged

type_synonym files = "string \<rightharpoonup> file_content"

definition generate_main :: "world \<Rightarrow> files \<Rightarrow> outcome \<times> message list \<times> files" where
  "generate_main w fs =
     (if \<not> isdir w then (SysExit 1, [DirectoryNotFound], fs)
      else if json_files w = [] then (SysExit 0, [NoJsonFiles], fs)
      else
        (case load_tokens w (json_files w) [] of
           Inl (filepath, e) \<Rightarrow>
             (Returned (PBool False), [Adding (length (json_files w)), ErrorReading filepath e], fs)
         | Inr tokens \<Rightarrow>
             (let data = registry_data tokens (now w) in
              case write_result w of
                WriteOk \<Rightarrow>
                  (Returned PNone, [Adding (length (json_files w)), Created file_out],
                   fs(file_out \<mapsto> Document data))
              | OpenFails e \<Rightarrow>
                  (Returned PNone, [Adding (length (json_files w)), ErrorWriting e], fs)
              | DumpOSError e \<Rightarrow>
                  (Returned PNone, [Adding (length (json_files w)), ErrorWriting e],
                   fs(file_out \<mapsto> Damaged))
              | DumpFails e \<Rightarrow>
                  (Returned PNone, [Adding (length (json_files w)), UnexpectedError e],
                   fs(file_out \<mapsto> Damaged)))))"

section \<open>Notions used to state the properties\<close>

text \<open>
  Two strings are casings of the same address when they agree up to the case of the
  hexadecimal letters \<open>A\<close> to \<open>F\<close>.
\<close>

definition hex_lower :: "char \<Rightarrow> char" where
  "hex_lower c =
     (if c = CHR ''A'' then CHR ''a''
      else if c = CHR ''B'' then CHR ''b''
      else if c = CHR ''C'' then CHR ''c''
      else if c = CHR ''D'' then CHR ''d''
      else if c = CHR ''E'' then CHR ''e''
      else if c = CHR ''F'' then CHR ''f''
      else c)"

definition same_address :: "string \<Rightarrow> string \<Rightarrow> bool" where
  "same_address a b = (map hex_lower a = map hex_lower b)"

section \<open>The validator's contract, in the words of the specification\<close>

text \<open>
  Section 4.4 of the specification: five checks in a fixed order, each with the error it
  fails with. The checks are written on the parsed object of a record file (\<open>kvs\<close>, the
  items of the dict). A check that cannot be carried out (an address that is not a string,
  a probe that raises or answers without a content type, decimals that are not a number)
  does not pass.
\<close>

datatype validation_error =
  MissingField | WrongChain | InvalidAddress | UnreachableOrWrongTypeLogo | DecimalsOutOfRange

definition has_required_fields :: "(string \<times> pyval) list \<Rightarrow> bool" where
  "has_required_fields kvs = list_all (\<lambda>field. field \<in> set (map fst kvs)) REQUIRED_FIELDS"

definition chain_is_expected :: "(string \<times> pyval) list \<Rightarrow> bool" where
  "chain_is_expected kvs =
     (case map_of kvs ''chainId'' of Some v \<Rightarrow> py_eq_int v 143 | None \<Rightarrow> False)"

definition address_is_well_formed :: "(string \<times> pyval) list \<Rightarrow> bool" where
  "address_is_well_formed kvs =
     (case map_of kvs ''address'' of Some (PStr a) \<Rightarrow> is_valid_address a | _ \<Rightarrow> False)"

definition logo_is_image :: "world \<Rightarrow> (string \<times> pyval) list \<Rightarrow> bool" where
  "logo_is_image w kvs =
     (case map_of kvs ''logoURI'' of Some u \<Rightarrow> is_url_image w u = Inr True | None \<Rightarrow> False)"

definition decimals_in_range :: "(string \<times> pyval) list \<Rightarrow> bool" where
  "decimals_in_range kvs =
     (case map_of kvs ''decimals'' of
        Some d \<Rightarrow> decimals_out_of_range d = Inr False
      | None \<Rightarrow> False)"

text \<open>The first check that fails, in the order of section 4.4; \<open>None\<close> when all five pass.\<close>

definition first_defect :: "world \<Rightarrow> (string \<times> pyval) list \<Rightarrow> validation_error option" where
  "first_defect w kvs =
     (if \<not> has_required_fields kvs then Some MissingField
      else if \<not> chain_is_expected kvs then Some WrongChain
      else if \<not> address_is_well_formed kvs then Some InvalidAddress
      else if \<not> logo_is_image w kvs then Some UnreachableOrWrongTypeLogo
      else if \<not> decimals_in_range kvs then Some DecimalsOutOfRange
      else None)"

text \<open>
  What \<^verbatim>\<open>is_valid_file\<close> does about a defect: the line it prints and the \<^verbatim>\<open>False\<close> it returns,
  or the exception the failing check itself raises. \<open>field_of\<close> reads a field that is present.
\<close>

definition field_of :: "(string \<times> pyval) list \<Rightarrow> string \<Rightarrow> pyval" where
  "field_of kvs key = (case map_of kvs key of Some v \<Rightarrow> v | None \<Rightarrow> PNone)"

definition report ::
  "world \<Rightarrow> string \<Rightarrow> (string \<times> pyval) list \<Rightarrow> validation_error \<Rightarrow> (verror + bool) \<times> message list" where
  "report w filepath kvs d =
     (case d of
        MissingField \<Rightarrow>
          (Inr False,
           [Missing (basename filepath) (filter (\<lambda>f. f \<notin> set (map fst kvs)) REQUIRED_FIELDS)])
      | WrongChain \<Rightarrow> (Inr False, [InvalidChainId])
      | InvalidAddress \<Rightarrow>
          (case call_is_valid_address (field_of kvs ''address'') of
             Inl x \<Rightarrow> (Inl x, [])
           | Inr _ \<Rightarrow> (Inr False, [IsInvalidAddress (field_of kvs ''address'')]))
      | UnreachableOrWrongTypeLogo \<Rightarrow>
          (case is_url_image w (field_of kvs ''logoURI'') of
             Inl x \<Rightarrow> (Inl x, [])
           | Inr _ \<Rightarrow> (Inr False, [IsNotAnImage (field_of kvs ''logoURI'')]))
      | DecimalsOutOfRange \<Rightarrow>
          (case decimals_out_of_range (field_of kvs ''decimals'') of
             Inl x \<Rightarrow> (Inl x, [])
           | Inr _ \<Rightarrow> (Inr False, [InvalidDecimals])))"

section \<open>Example inputs\<close>

text \<open>
  A small world for examples: the directory holds the given files (name and parsed
  content), every URL answers with an \<^verbatim>\<open>image/png\<close> response except the listed ones, on which
  \<^verbatim>\<open>requests.head\<close> raises.
\<close>

definition example_world :: "(string \<times> pyval) list \<Rightarrow> string list \<Rightarrow> world" where
  "example_world dir unreachable =
     \<lparr>base_dir = ''scripts/../mainnet'',
      isdir = True,
      listdir = map fst dir,
      load = (\<lambda>p. case map_of dir (basename p) of
                     Some v \<Rightarrow> Inr v
                   | None \<Rightarrow> Inl ''No such file or directory''),
      requests_head = (\<lambda>u. if u \<in> set (map PStr unreachable)
                             then Inl (RequestException ''ConnectionError'')
                             else Inr [''content-type'' \<mapsto> ''image/png'']),
      now = ''2025-01-01T00:00:00+00:00'',
      write_result = WriteOk\<rparr>"

definition example_record :: "int \<Rightarrow> int \<Rightarrow> string \<Rightarrow> (string \<times> pyval) list" where
  "example_record chain decimals logo =
     [(''chainId'', PInt chain),
      (''address'', PStr ''0x5aAeb6053F3E94C9b9A09f33669435E7Ef1BeAed''),
      (''name'', PStr ''Test''),
      (''symbol'', PStr ''TST''),
      (''decimals'', PInt decimals),
      (''logoURI'', PStr logo)]"

text \<open>
  Two record files, listed by the file system in the order \<open>ZZZ.json\<close>, \<open>AAA.json\<close>:
  \<open>AAA.json\<close> is a good record whose logo is served from another host, \<open>ZZZ.json\<close> has
  \<open>decimals = 3\<close>.
\<close>

definition two_files :: "(string \<times> pyval) list" where
  "two_files =
     [(''ZZZ.json'', PDict (example_record 143 3 ''https://x/logo.png'')),
      (''AAA.json'', PDict (example_record 143 18 ''https://down.example/logo.png''))]"

text \<open>
  A registry document with its timestamp blanked, and the keys of a document in their
  order: two documents differ at most in the timestamp when they are equal once blanked.
\<close>

fun without_timestamp :: "pyval \<Rightarrow> pyval" where
  "without_timestamp (PDict kvs) =
     PDict (map (\<lambda>(k, v). if k = ''timestamp'' then (k, PNone) else (k, v)) kvs)"
| "without_timestamp v = v"

fun keys :: "pyval \<Rightarrow> string list" where
  "keys (PDict kvs) = map fst kvs"
| "keys _ = []"


text \<open>
  The numeric value of a Python number: an integer, a bool (0 or 1) or a finite float.
\<close>

fun number_value :: "pyval \<Rightarrow> real option" where
  "number_value (PInt i) = Some (of_int i)"
| "number_value (PBool b) = Some (if b then 1 else 0)"
| "number_value (PFloat (Finite r)) = Some r"
| "number_value _ = None"

text \<open>The record of the examples with \<^verbatim>\<open>"decimals": 6.5\<close>.\<close>

definition fractional_record :: "(string \<times> pyval) list" where
  "fractional_record =
     [(''chainId'', PInt 143),
      (''address'', PStr ''0x5aAeb6053F3E94C9b9A09f33669435E7Ef1BeAed''),
      (''name'', PStr ''Test''),
      (''symbol'', PStr ''TST''),
      (''decimals'', PFloat (Finite (13 / 2))),
      (''logoURI'', PStr ''https://x/logo.png'')]"

text \<open>
  The directory of \<open>two_files\<close> with a third entry, \<open>BAD.json\<close>, that cannot be opened.
\<close>

definition broken_world :: world where
  "broken_world = (example_world two_files [])\<lparr>listdir := [''ZZZ.json'', ''BAD.json'', ''AAA.json'']\<rparr>"





section \<open>Retry: no attempts allowed\<close>

text \<open>
  C10. With \<open>max_retries \<le> 0\<close> the loop body never runs: the operation is not called, nothing
  sleeps, the state is untouched, and the exception raised carries no cause
  (\<^verbatim>\<open>last_exception\<close> is still \<^verbatim>\<open>None\<close>).
\<close>

theorem retry_no_budget:
  assumes "max_retries \<le> 0"
  shows "retry_with_backoff sleep func max_retries retry_delay retry_backoff operation_name s =
           (Inl (RetryExhausted operation_name max_retries None), s, [])"
  using assms by (simp add: retry_with_backoff_def py_range_def)

theorem retry_no_budget_witness:
  "(0::int) \<le> 0 \<and>
   retry_with_backoff time_sleep (\<lambda>s::nat. (Inr (PInt 18) :: string + pyval, Suc s)) 0 1 2
       ''fetch decimals'' 7 =
     (Inl (RetryExhausted ''fetch decimals'' 0 None), 7, [])"
  using retry_no_budget [of 0 time_sleep "\<lambda>s::nat. (Inr (PInt 18) :: string + pyval, Suc s)" 1 2
      "''fetch decimals''" 7]
  by simp

section \<open>Retry: an operation that always fails\<close>

lemma after_calls_Suc_end: "after_calls func (Suc k) s = snd (func (after_calls func k s))"
  by (induction k arbitrary: s) simp_all

lemma call_outcome_0: "call_outcome func s 0 = fst (func s)"
  by (simp add: call_outcome_def)

lemma call_outcome_Suc: "call_outcome func s (Suc i) = call_outcome func (snd (func s)) i"
  by (simp add: call_outcome_def)

lemma retry_loop_always_fails:
  assumes fails: "\<And>s. isl (fst (func s))"
  shows "(\<And>i. i < j \<Longrightarrow> sleep (cd * b ^ i) = None) \<Longrightarrow> int k + int (Suc j) = n \<Longrightarrow>
     retry_loop sleep func n b name (map int [k..<k + Suc j]) cd le s =
       (Inl (RetryExhausted name n (Some (projl (call_outcome func s j)))),
        after_calls func (Suc j) s,
        concat (map (\<lambda>i. [Attempt name (call_outcome func s i), Sleep (cd * b ^ i)]) [0..<j])
          @ [Attempt name (call_outcome func s j)])"
proof (induction j arbitrary: k cd le s)
  case 0
  obtain e s' where fs: "func s = (Inl e, s')"
    using fails [of s] by (cases "func s") (auto simp: isl_def)
  from 0 fs show ?case by (simp add: call_outcome_def)
next
  case (Suc j)
  obtain e s' where fs: "func s = (Inl e, s')"
    using fails [of s] by (cases "func s") (auto simp: isl_def)
  have lst: "[k..<k + Suc (Suc j)] = k # [Suc k..<Suc k + Suc j]"
    by (simp add: upt_rec)
  have lt: "int k < n - 1" using Suc.prems by simp
  have now: "sleep cd = None" using Suc.prems(1) [of 0] by simp
  have later: "sleep (cd * b * b ^ i) = None" if "i < j" for i
    using Suc.prems(1) [of "Suc i"] that by (simp add: mult.assoc)
  have n': "int (Suc k) + int (Suc j) = n" using Suc.prems by simp
  note IH = Suc.IH [OF later n', of "Some e" s']
  have map0: "map (\<lambda>i. [Attempt name (call_outcome func s i), Sleep (cd * b ^ i)]) [0..<Suc j]
      = [Attempt name (Inl e), Sleep cd] #
        map (\<lambda>i. [Attempt name (call_outcome func s' i), Sleep (cd * b * b ^ i)]) [0..<j]"
    using fs by (simp add: map_upt_Suc call_outcome_0 call_outcome_Suc mult.assoc del: upt_Suc)
  show ?case
    unfolding lst list.map
    using lt now fs IH map0
    by (simp add: call_outcome_Suc del: upt_Suc)
qed

lemma attempts_of_failed_rounds:
  "length (filter is_attempt
     (concat (map (\<lambda>i. [Attempt name (f i), Sleep (g i)]) xs) @ [Attempt name x])) = Suc (length xs)"
  by (induction xs) simp_all

lemma sleeps_of_failed_rounds:
  "sleeps (concat (map (\<lambda>i. [Attempt name (f i), Sleep (g i)]) xs) @ [Attempt name x]) = map g xs"
  by (induction xs) simp_all

text \<open>
  C1, as the code has it. Let \<open>func\<close> raise on every call, let \<open>n \<ge> 1\<close> attempts be allowed,
  and let \<^verbatim>\<open>time.sleep\<close> accept each of the \<open>n - 1\<close> delays \<open>d * b ^ i\<close>. Then \<open>func\<close> is called
  exactly \<open>n\<close> times; after each of the first \<open>n - 1\<close> failures, and not after the last, the
  executor sleeps, the sleep after failure number \<open>i\<close> (counted from 0) lasting \<open>d * b ^ i\<close>;
  and the run ends in \<open>RetryExhausted\<close> with the operation's name, \<open>n\<close>, and as cause the
  exception of the last call.
\<close>

theorem retry_exhausted_after_n_attempts:
  assumes "\<forall>s. isl (fst (func s))" and "1 \<le> n"
    and "\<forall>i < nat n - 1. sleep (d * b ^ i) = None"
  shows "\<exists>cause tr.
      retry_with_backoff sleep func n d b name s =
        (Inl (RetryExhausted name n (Some cause)), after_calls func (nat n) s, tr)
    \<and> call_outcome func s (nat n - 1) = Inl cause
    \<and> tr = concat (map (\<lambda>i. [Attempt name (call_outcome func s i), Sleep (d * b ^ i)]) [0..<nat n - 1])
             @ [Attempt name (Inl cause)]
    \<and> length (filter is_attempt tr) = nat n
    \<and> sleeps tr = map (\<lambda>i. d * b ^ i) [0..<nat n - 1]"
proof -
  obtain j where j: "nat n = Suc j"
    using assms(2) by (cases "nat n") auto
  have fails: "\<And>s. isl (fst (func s))" using assms(1) by blast
  have accepted: "\<And>i. i < j \<Longrightarrow> sleep (d * b ^ i) = None" using assms(3) j by simp
  have n: "int 0 + int (Suc j) = n" using j assms(2) by linarith
  obtain cause where cause: "call_outcome func s j = Inl cause"
    using fails [of "after_calls func j s"] by (auto simp: call_outcome_def isl_def)
  define tr where "tr =
      concat (map (\<lambda>i. [Attempt name (call_outcome func s i), Sleep (d * b ^ i)]) [0..<j])
        @ [Attempt name (Inl cause :: 'b + 'c)]"
  have run: "retry_with_backoff sleep func n d b name s =
       (Inl (RetryExhausted name n (Some cause)), after_calls func (nat n) s, tr)"
    using retry_loop_always_fails [where sleep = sleep and func = func and cd = d and b = b
        and j = j and k = 0 and n = n and name = name and le = None and s = s, OF fails accepted n]
      cause j
    by (simp add: retry_with_backoff_def py_range_def tr_def)
  have len: "length (filter is_attempt tr) = nat n"
    unfolding tr_def j by (simp only: attempts_of_failed_rounds length_upt diff_zero)
  have sl: "sleeps tr = map (\<lambda>i. d * b ^ i) [0..<nat n - 1]"
    unfolding tr_def j by (simp only: sleeps_of_failed_rounds diff_Suc_1)
  have shape: "tr = concat (map (\<lambda>i. [Attempt name (call_outcome func s i), Sleep (d * b ^ i)]) [0..<nat n - 1])
             @ [Attempt name (Inl cause)]"
    unfolding tr_def j by (simp only: diff_Suc_1)
  have last: "call_outcome func s (nat n - 1) = Inl cause"
    using cause j by simp
  from run last shape len sl show ?thesis by blast
qed

theorem retry_exhausted_after_n_attempts_witness:
  "retry_with_backoff time_sleep (\<lambda>s::nat. (Inl s :: nat + pyval, Suc s)) 3 1 2 ''fetch name'' 10 =
     (Inl (RetryExhausted ''fetch name'' 3 (Some 12)), 13,
      [Attempt ''fetch name'' (Inl 10), Sleep 1,
       Attempt ''fetch name'' (Inl 11), Sleep 2,
       Attempt ''fetch name'' (Inl 12)])"
proof -
  have accepted: "\<forall>i < nat 3 - 1. time_sleep (1 * 2 ^ i) = None"
    by (simp add: time_sleep_def less_Suc_eq numeral_2_eq_2)
  show ?thesis
    using retry_exhausted_after_n_attempts
      [of "\<lambda>s::nat. (Inl s :: nat + pyval, Suc s)" 3 time_sleep 1 2 "''fetch name''" 10] accepted
    by (simp add: call_outcome_def numeral_2_eq_2 numeral_3_eq_3)
qed

text \<open>
  C1 as stated, for every always-failing operation and every \<open>n \<ge> 1\<close> whatever the delays,
  fails. With \<open>n = 2\<close> and an initial delay of \<open>-1\<close>, or of \<open>10 ^ 10\<close> seconds, \<^verbatim>\<open>time.sleep\<close>
  raises after the first failed attempt: the operation is called once, not twice, and the
  exception that leaves is \<^verbatim>\<open>ValueError\<close> or \<^verbatim>\<open>OverflowError\<close>, not \<open>RetryExhausted\<close>.
\<close>

theorem retry_refused_delay_counterexample:
  "retry_with_backoff time_sleep (\<lambda>s::nat. (Inl s :: nat + pyval, Suc s)) 2 (- 1) 2 ''fetch name'' 10 =
     (Inl (SleepError ValueError), 11, [Attempt ''fetch name'' (Inl 10)])
   \<and> retry_with_backoff time_sleep (\<lambda>s::nat. (Inl s :: nat + pyval, Suc s)) 2 (10 ^ 10) 2
       ''fetch name'' 10 =
     (Inl (SleepError OverflowError), 11, [Attempt ''fetch name'' (Inl 10)])"
  by (simp add: retry_with_backoff_def py_range_def time_sleep_def numeral_2_eq_2)

section \<open>The address check of the validator\<close>

lemma hex_lower_digit:
  "(hex_lower c \<in> set ''0123456789ABCDEFabcdef'') = (c \<in> set ''0123456789ABCDEFabcdef'')"
  by (simp add: hex_lower_def)

lemma hex_lower_prefix: "(map hex_lower xs = ''0x'') = (xs = ''0x'')"
proof (cases xs)
  case Nil
  then show ?thesis by simp
next
  case (Cons c ys)
  show ?thesis
  proof (cases ys)
    case Nil
    with Cons show ?thesis by simp
  next
    case (Cons d zs)
    have c: "(hex_lower c = CHR ''0'') = (c = CHR ''0'')" by (simp add: hex_lower_def)
    have d: "(hex_lower d = CHR ''x'') = (d = CHR ''x'')" by (simp add: hex_lower_def)
    from \<open>xs = c # ys\<close> Cons c d show ?thesis by simp
  qed
qed

lemma is_valid_address_hex_lower: "is_valid_address (map hex_lower a) = is_valid_address a"
proof -
  have p: "startswith (map hex_lower a) ''0x'' = startswith a ''0x''"
    unfolding startswith_def take_map by (rule hex_lower_prefix)
  have d: "list_all (\<lambda>c. c \<in> set ''0123456789ABCDEFabcdef'') (drop 2 (map hex_lower a))
         = list_all (\<lambda>c. c \<in> set ''0123456789ABCDEFabcdef'') (drop 2 a)"
    unfolding drop_map list_all_iff using hex_lower_digit by auto
  show ?thesis unfolding is_valid_address_def p d by simp
qed

text \<open>
  C6, as the code has it. \<^verbatim>\<open>is_valid_address\<close> looks at the prefix, the length and the
  alphabet of the payload and computes no checksum: if it accepts a string it accepts
  every other casing of the same address.
\<close>

theorem is_valid_address_any_casing:
  assumes "is_valid_address a" and "same_address a b"
  shows "is_valid_address b"
  using assms is_valid_address_hex_lower [of a] is_valid_address_hex_lower [of b]
  by (simp add: same_address_def)

theorem is_valid_address_any_casing_witness:
  "is_valid_address ''0x5aaeb6053f3e94c9b9a09f33669435e7ef1beaed''
   \<and> same_address ''0x5aaeb6053f3e94c9b9a09f33669435e7ef1beaed'' ''0x5AAEB6053F3E94C9B9A09F33669435E7EF1BEAED''
   \<and> is_valid_address ''0x5AAEB6053F3E94C9B9A09F33669435E7EF1BEAED''"
proof -
  have a: "is_valid_address ''0x5aaeb6053f3e94c9b9a09f33669435e7ef1beaed''"
    by (simp add: is_valid_address_def startswith_def)
  have s: "same_address ''0x5aaeb6053f3e94c9b9a09f33669435e7ef1beaed'' ''0x5AAEB6053F3E94C9B9A09F33669435E7EF1BEAED''"
    by (simp add: same_address_def hex_lower_def)
  from a s is_valid_address_any_casing [OF a s] show ?thesis by simp
qed

text \<open>
  C6 as stated (exactly one casing of an address is accepted) fails: the mixed-case and the
  all-lowercase writing of one address are different strings, and both are accepted.
\<close>

theorem one_canonical_casing_counterexample:
  "is_valid_address ''0x5aAeb6053F3E94C9b9A09f33669435E7Ef1BeAed''
   \<and> is_valid_address ''0x5aaeb6053f3e94c9b9a09f33669435e7ef1beaed''
   \<and> same_address ''0x5aAeb6053F3E94C9b9A09f33669435E7Ef1BeAed'' ''0x5aaeb6053f3e94c9b9a09f33669435e7ef1beaed''
   \<and> ''0x5aAeb6053F3E94C9b9A09f33669435E7Ef1BeAed'' \<noteq> ''0x5aaeb6053f3e94c9b9a09f33669435e7ef1beaed''"
  by (simp add: is_valid_address_def startswith_def same_address_def hex_lower_def)

section \<open>The order of the validator's checks\<close>

lemma missing_fields_dict:
  "missing_fields (PDict kvs) = Inr (filter (\<lambda>f. f \<notin> set (map fst kvs)) REQUIRED_FIELDS)"
  by (simp add: missing_fields_def)

lemma no_missing_iff:
  "(filter (\<lambda>f. f \<notin> fst ` set kvs) REQUIRED_FIELDS = []) = has_required_fields kvs"
  by (simp add: has_required_fields_def filter_empty_conv list_all_iff)

lemma required_present:
  assumes "has_required_fields kvs" and "key \<in> set REQUIRED_FIELDS"
  shows "\<exists>v. map_of kvs key = Some v"
proof -
  from assms have "key \<in> set (map fst kvs)"
    by (simp add: has_required_fields_def list_all_iff)
  then have "key \<in> dom (map_of kvs)" by (simp add: dom_map_of_conv_image_fst)
  then show ?thesis by blast
qed

lemma is_valid_file_dict:
  assumes "load w filepath = Inr (PDict kvs)"
  shows "is_valid_file w filepath =
           (case first_defect w kvs of None \<Rightarrow> (Inr True, []) | Some d \<Rightarrow> report w filepath kvs d)"
proof (cases "has_required_fields kvs")
  case False
  then show ?thesis
    using assms
    by (simp add: is_valid_file_def or_raise_def missing_fields_dict no_missing_iff
        first_defect_def report_def)
next
  case True
  obtain c a u d where f:
    "map_of kvs ''chainId'' = Some c" "map_of kvs ''address'' = Some a"
    "map_of kvs ''logoURI'' = Some u" "map_of kvs ''decimals'' = Some d"
    using required_present [OF True] by (fastforce simp: REQUIRED_FIELDS_def)
  show ?thesis
    using assms True f
    by (cases a; cases "is_url_image w u"; cases "decimals_out_of_range d")
       (simp_all add: is_valid_file_def or_raise_def missing_fields_dict no_missing_iff
          first_defect_def report_def field_of_def chain_is_expected_def
          address_is_well_formed_def logo_is_image_def decimals_in_range_def)
qed




lemma example_load:
  "load (example_world [(''TST.json'', v)] us) ''scripts/../mainnet/TST.json'' = Inr v"
  by (simp add: example_world_def basename_def)


section \<open>The range of decimals\<close>

lemma decimals_out_of_range_number:
  assumes "number_value v = Some r"
  shows "decimals_out_of_range v = Inr (r < 6 \<or> r > 36)"
proof (cases v)
  case (PInt i)
  with assms have r: "r = of_int i" by simp
  have "(i < 6) = (of_int i < (6::real))" and "(36 < i) = ((36::real) < of_int i)" by linarith+
  with PInt r show ?thesis
    by (cases "i < 6") (simp_all add: decimals_out_of_range_def)
next
  case (PBool b)
  with assms show ?thesis by (cases b) (simp_all add: decimals_out_of_range_def)
next
  case (PFloat f)
  with assms obtain x where f: "f = Finite x" and r: "r = x" by (cases f) simp_all
  with PFloat show ?thesis
    by (cases "x < 6") (simp_all add: decimals_out_of_range_def)
qed (use assms in simp_all)

text \<open>
  C7, as the code has it. For a record that passes the four earlier checks and whose
  \<^verbatim>\<open>decimals\<close> is a number of value \<open>r\<close> (an integer, or a float: the comparison does not tell
  them apart), the file is valid exactly when \<open>6 \<le> r \<le> 36\<close>, and is reported with
  \<^verbatim>\<open>Invalid decimals.\<close> otherwise.
\<close>

theorem decimals_check_accepts_6_to_36:
  assumes "load w filepath = Inr (PDict kvs)"
    and "has_required_fields kvs" and "chain_is_expected kvs"
    and "address_is_well_formed kvs" and "logo_is_image w kvs"
    and "map_of kvs ''decimals'' = Some v" and "number_value v = Some r"
  shows "is_valid_file w filepath =
           (if 6 \<le> r \<and> r \<le> 36 then (Inr True, []) else (Inr False, [InvalidDecimals]))"
  using assms(2-6) is_valid_file_dict [OF assms(1)] decimals_out_of_range_number [OF assms(7)]
  by (auto simp: first_defect_def decimals_in_range_def report_def field_of_def)

theorem decimals_check_accepts_6_to_36_witness:
  "is_valid_file (example_world [(''TST.json'', PDict (example_record 143 5 ''https://x/logo.png''))] [])
     ''scripts/../mainnet/TST.json'' = (Inr False, [InvalidDecimals])
   \<and> is_valid_file (example_world [(''TST.json'', PDict (example_record 143 6 ''https://x/logo.png''))] [])
     ''scripts/../mainnet/TST.json'' = (Inr True, [])
   \<and> is_valid_file (example_world [(''TST.json'', PDict (example_record 143 36 ''https://x/logo.png''))] [])
     ''scripts/../mainnet/TST.json'' = (Inr True, [])
   \<and> is_valid_file (example_world [(''TST.json'', PDict (example_record 143 37 ''https://x/logo.png''))] [])
     ''scripts/../mainnet/TST.json'' = (Inr False, [InvalidDecimals])"
proof -
  have pre: "has_required_fields (example_record 143 d ''https://x/logo.png'')"
    "chain_is_expected (example_record 143 d ''https://x/logo.png'')"
    "address_is_well_formed (example_record 143 d ''https://x/logo.png'')"
    "logo_is_image (example_world dir []) (example_record 143 d ''https://x/logo.png'')"
    "map_of (example_record 143 d ''https://x/logo.png'') ''decimals'' = Some (PInt d)"
    "number_value (PInt d) = Some (of_int d)"
    for d dir
    by (simp_all add: has_required_fields_def REQUIRED_FIELDS_def example_record_def
        chain_is_expected_def address_is_well_formed_def is_valid_address_def startswith_def
        logo_is_image_def is_url_image_def example_world_def image_formats_def)
  show ?thesis
    using decimals_check_accepts_6_to_36 [OF example_load pre, of 5]
      decimals_check_accepts_6_to_36 [OF example_load pre, of 6]
      decimals_check_accepts_6_to_36 [OF example_load pre, of 36]
      decimals_check_accepts_6_to_36 [OF example_load pre, of 37]
    by simp
qed

text \<open>
  C7 as stated (exactly the integers from 6 to 36 are accepted) fails: the check compares
  and never asks for an integer, so the record with \<^verbatim>\<open>"decimals": 6.5\<close> is valid.
\<close>

theorem decimals_fraction_counterexample:
  "map_of fractional_record ''decimals'' = Some (PFloat (Finite (13 / 2)))
   \<and> is_valid_file (example_world [(''TST.json'', PDict fractional_record)] [])
       ''scripts/../mainnet/TST.json'' = (Inr True, [])"
  by (simp add: is_valid_file_def or_raise_def example_world_def basename_def missing_fields_def
      REQUIRED_FIELDS_def fractional_record_def is_valid_address_def startswith_def
      is_url_image_def image_formats_def decimals_out_of_range_def)

section \<open>The exit status of the validation run\<close>

lemma validate_files_outcome:
  "fst (validate_files w fs) = Returned PNone \<or> (\<exists>x. fst (validate_files w fs) = Uncaught x)"
proof (induction fs)
  case Nil
  then show ?case by simp
next
  case (Cons f fs)
  then show ?case
    by (cases "is_valid_file w (path_join (base_dir w) f)")
       (auto split: sum.splits prod.splits)
qed

text \<open>
  C4, as the code has it. A missing directory ends the run with status 1. With the
  directory in place, a run that no exception leaves ends with status 0: both when there
  is no record file (\<^verbatim>\<open>sys.exit(0)\<close>) and when all files were validated, whatever the
  verdicts (\<^verbatim>\<open>main\<close> returns and the script ends).
\<close>

theorem validate_main_exit_status:
  "(\<not> isdir w \<longrightarrow> exit_status (fst (validate_main w)) = 1)
   \<and> (isdir w \<longrightarrow> (\<forall>x. fst (validate_main w) \<noteq> Uncaught x) \<longrightarrow>
        exit_status (fst (validate_main w)) = 0)"
proof -
  have "exit_status (fst (validate_main w)) = 0"
    if "isdir w" and "\<forall>x. fst (validate_main w) \<noteq> Uncaught x"
  proof (cases "json_files w = []")
    case True
    with that show ?thesis by (simp add: validate_main_def)
  next
    case False
    with that have eq: "fst (validate_main w) = fst (validate_files w (json_files w))"
      by (simp add: validate_main_def split: prod.splits)
    with that validate_files_outcome [of w "json_files w"] show ?thesis by auto
  qed
  then show ?thesis by (simp add: validate_main_def)
qed

lemma example_json_files_one:
  "json_files (example_world [(''TST.json'', v)] us) = [''TST.json'']"
  by (simp add: json_files_def example_world_def is_json_name_def endswith_def)

lemma example_is_valid_file_bad_decimals:
  "is_valid_file (example_world [(''TST.json'', PDict (example_record 143 3 ''https://x/logo.png''))] [])
      ''scripts/../mainnet/TST.json'' = (Inr False, [InvalidDecimals])"
  by (simp add: is_valid_file_def or_raise_def example_world_def basename_def missing_fields_def
      REQUIRED_FIELDS_def example_record_def is_valid_address_def startswith_def
      is_url_image_def image_formats_def decimals_out_of_range_def)

lemma example_path: "path_join ''scripts/../mainnet'' ''TST.json'' = ''scripts/../mainnet/TST.json''"
  by (simp add: path_join_def startswith_def endswith_def)

lemma example_run_invalid:
  "validate_main (example_world [(''TST.json'', PDict (example_record 143 3 ''https://x/logo.png''))] [])
     = (Returned PNone, [Validating 1, InvalidDecimals, IsInvalid ''TST.json''])"
  using example_is_valid_file_bad_decimals example_path
  by (simp add: validate_main_def example_json_files_one)
     (simp add: example_world_def)


theorem validate_main_exit_status_witness:
  "isdir (example_world [(''TST.json'', PDict (example_record 143 3 ''https://x/logo.png''))] [])
   \<and> validate_main (example_world [(''TST.json'', PDict (example_record 143 3 ''https://x/logo.png''))] [])
       = (Returned PNone, [Validating 1, InvalidDecimals, IsInvalid ''TST.json''])
   \<and> exit_status (fst (validate_main
         (example_world [(''TST.json'', PDict (example_record 143 3 ''https://x/logo.png''))] []))) = 0"
  using validate_main_exit_status
    [of "example_world [(''TST.json'', PDict (example_record 143 3 ''https://x/logo.png''))] []"]
    example_run_invalid
  by (simp add: example_world_def)

text \<open>
  C4 as stated fails: a run that reports an invalid record and a run that finds no record
  file end with the same exit status, 0.
\<close>

theorem exit_status_counterexample:
  "validate_main (example_world [(''TST.json'', PDict (example_record 143 3 ''https://x/logo.png''))] [])
       = (Returned PNone, [Validating 1, InvalidDecimals, IsInvalid ''TST.json''])
   \<and> validate_main (example_world [] []) = (SysExit 0, [NoJsonFiles])
   \<and> exit_status (fst (validate_main
         (example_world [(''TST.json'', PDict (example_record 143 3 ''https://x/logo.png''))] [])))
     = exit_status (fst (validate_main (example_world [] [])))"
proof -
  have empty: "validate_main (example_world [] []) = (SysExit 0, [NoJsonFiles])"
    by (simp add: validate_main_def json_files_def example_world_def)
  show ?thesis using example_run_invalid empty by simp
qed

section \<open>An exception in the logo probe\<close>

lemma two_files_json_files:
  "json_files (example_world two_files us) = [''AAA.json'', ''ZZZ.json'']"
  by (simp add: json_files_def example_world_def two_files_def is_json_name_def endswith_def)

lemma two_files_paths:
  "path_join ''scripts/../mainnet'' ''AAA.json'' = ''scripts/../mainnet/AAA.json''"
  "path_join ''scripts/../mainnet'' ''ZZZ.json'' = ''scripts/../mainnet/ZZZ.json''"
  by (simp_all add: path_join_def startswith_def endswith_def)

lemma two_files_AAA_raises:
  "is_valid_file (example_world two_files [''https://down.example/logo.png''])
      ''scripts/../mainnet/AAA.json'' = (Inl (RequestException ''ConnectionError''), [])"
  by (simp add: is_valid_file_def or_raise_def example_world_def basename_def missing_fields_def
      REQUIRED_FIELDS_def example_record_def is_valid_address_def startswith_def two_files_def
      is_url_image_def image_formats_def decimals_out_of_range_def)

text \<open>
  C5 fails on the code. When \<^verbatim>\<open>requests.head\<close> raises for the logo of \<open>AAA.json\<close> (the host
  is down), nothing catches the exception: the run ends after the line
  \<^verbatim>\<open>Validating 2 files...\<close>, with no verdict for \<open>AAA.json\<close> and without looking at
  \<open>ZZZ.json\<close>.
\<close>

theorem unreachable_logo_halts_validation:
  "validate_main (example_world two_files [''https://down.example/logo.png''])
     = (Uncaught (RequestException ''ConnectionError''), [Validating 2])"
  using two_files_AAA_raises two_files_paths
  by (simp add: validate_main_def two_files_json_files)
     (simp add: example_world_def)

text \<open>
  With the host up the same directory is validated to the end, and the invalid
  \<open>ZZZ.json\<close> is reported.
\<close>

lemma two_files_all_reachable:
  "validate_main (example_world two_files [])
     = (Returned PNone,
        [Validating 2, IsValid ''AAA.json'', InvalidDecimals, IsInvalid ''ZZZ.json''])"
proof -
  have a: "is_valid_file (example_world two_files []) ''scripts/../mainnet/AAA.json'' = (Inr True, [])"
    by (simp add: is_valid_file_def or_raise_def example_world_def basename_def missing_fields_def
      REQUIRED_FIELDS_def example_record_def is_valid_address_def startswith_def two_files_def
      is_url_image_def image_formats_def decimals_out_of_range_def)
  have z: "is_valid_file (example_world two_files []) ''scripts/../mainnet/ZZZ.json''
       = (Inr False, [InvalidDecimals])"
    by (simp add: is_valid_file_def or_raise_def example_world_def basename_def missing_fields_def
      REQUIRED_FIELDS_def example_record_def is_valid_address_def startswith_def two_files_def
      is_url_image_def image_formats_def decimals_out_of_range_def)
  show ?thesis
    using a z two_files_paths
    by (simp add: validate_main_def two_files_json_files) (simp add: example_world_def)
qed

section \<open>Aggregation\<close>

lemma load_tokens_find:
  "load_tokens w files acc =
     (case find (\<lambda>g. isl (load w (path_join (base_dir w) g))) files of
        Some bad \<Rightarrow> Inl (path_join (base_dir w) bad, projl (load w (path_join (base_dir w) bad)))
      | None \<Rightarrow> Inr (acc @ map (\<lambda>g. projr (load w (path_join (base_dir w) g))) files))"
proof (induction files arbitrary: acc)
  case Nil
  then show ?case by simp
next
  case (Cons f files)
  then show ?case
    by (cases "load w (path_join (base_dir w) f)") (simp_all split: option.splits)
qed

text \<open>
  C8. If some record file of the directory cannot be read or parsed, the run prints the
  path of the first such file in filename order with the error, returns from \<^verbatim>\<open>main\<close> at
  once, and leaves every file as it was: no registry document is written, neither whole
  nor in part.
\<close>

theorem aggregate_all_or_nothing:
  assumes "isdir w" and "f \<in> set (listdir w)" and "is_json_name f"
    and "load w (path_join (base_dir w) f) = Inl e"
  shows "\<exists>bad cause.
      find (\<lambda>g. isl (load w (path_join (base_dir w) g))) (json_files w) = Some bad
    \<and> load w (path_join (base_dir w) bad) = Inl cause
    \<and> generate_main w fs =
        (Returned (PBool False),
         [Adding (length (json_files w)), ErrorReading (path_join (base_dir w) bad) cause],
         fs)"
proof -
  have mem: "f \<in> set (json_files w)"
    using assms(2,3) by (simp add: json_files_def)
  then have ne: "json_files w \<noteq> []" by auto
  from mem assms(4)
  have "find (\<lambda>g. isl (load w (path_join (base_dir w) g))) (json_files w) \<noteq> None"
    by (auto simp: find_None_iff)
  then obtain bad where bad: "find (\<lambda>g. isl (load w (path_join (base_dir w) g))) (json_files w) = Some bad"
    by blast
  then have "isl (load w (path_join (base_dir w) bad))"
    by (auto simp: find_Some_iff)
  then obtain cause where cause: "load w (path_join (base_dir w) bad) = Inl cause"
    by (auto simp: isl_def)
  have "generate_main w fs =
        (Returned (PBool False),
         [Adding (length (json_files w)), ErrorReading (path_join (base_dir w) bad) cause],
         fs)"
    using assms(1) ne bad cause by (simp add: generate_main_def load_tokens_find)
  with bad cause show ?thesis by blast
qed


lemma broken_world_json_files: "json_files broken_world = [''AAA.json'', ''BAD.json'', ''ZZZ.json'']"
  by (simp add: json_files_def broken_world_def example_world_def is_json_name_def endswith_def)

lemma broken_world_loads:
  "load broken_world (path_join (base_dir broken_world) ''AAA.json'')
     = Inr (PDict (example_record 143 18 ''https://down.example/logo.png''))"
  "load broken_world (path_join (base_dir broken_world) ''BAD.json'')
     = Inl ''No such file or directory''"
  by (simp_all add: broken_world_def example_world_def two_files_def basename_def path_join_def
      startswith_def endswith_def)

theorem aggregate_all_or_nothing_witness:
  "generate_main broken_world Map.empty =
     (Returned (PBool False),
      [Adding 3, ErrorReading ''scripts/../mainnet/BAD.json'' ''No such file or directory''],
      Map.empty)"
proof -
  have d: "isdir broken_world" and m: "''BAD.json'' \<in> set (listdir broken_world)"
    and j: "is_json_name ''BAD.json''"
    by (simp_all add: broken_world_def example_world_def is_json_name_def endswith_def)
  have p: "path_join (base_dir broken_world) ''BAD.json'' = ''scripts/../mainnet/BAD.json''"
    by (simp add: broken_world_def example_world_def path_join_def startswith_def endswith_def)
  show ?thesis
    using aggregate_all_or_nothing [OF d m j broken_world_loads(2), of Map.empty]
      broken_world_loads p
    by (auto simp: broken_world_json_files)
qed

lemma sort_permutation:
  assumes "mset l2 = mset l1"
  shows "sort l2 = sort l1"
  using assms by (intro properties_for_sort) simp_all

lemma registry_data_untimed:
  "without_timestamp (registry_data tokens t1) = without_timestamp (registry_data tokens t2)"
  by (simp add: registry_data_def)

lemma registry_data_keys:
  "keys (registry_data tokens t) =
     [''name'', ''logoURI'', ''keywords'', ''timestamp'', ''tokens'', ''version'']"
  by (simp add: registry_data_def)

lemma generate_main_all_parse:
  assumes "isdir w" and "json_files w \<noteq> []"
    and "list_all (\<lambda>f. \<not> isl (load w (path_join (base_dir w) f))) (json_files w)"
    and "write_result w = WriteOk"
  shows "generate_main w fs =
     (Returned PNone, [Adding (length (json_files w)), Created file_out],
      fs(file_out \<mapsto> Document (registry_data
          (map (\<lambda>f. projr (load w (path_join (base_dir w) f))) (json_files w)) (now w))))"
proof -
  have "find (\<lambda>g. isl (load w (path_join (base_dir w) g))) (json_files w) = None"
    using assms(3) by (simp add: find_None_iff list_all_iff)
  then show ?thesis
    using assms(1,2,4) by (simp add: generate_main_def load_tokens_find)
qed

text \<open>
  C9. Take a directory whose record files all parse (at least one of them, and the output
  file can be written), and two runs over it: the file system lists the directory in any
  two orders \<open>l1\<close> and \<open>l2\<close>, and the clocks read \<open>t1\<close> and \<open>t2\<close>. Both runs write
  \<^verbatim>\<open>tokenlist-mainnet.json\<close> with the keys name, logoURI, keywords, timestamp, tokens and
  version in this order; under \<^verbatim>\<open>tokens\<close> both have the same list, the parsed files in the
  order of their filenames; the other fields are the fixed values of the script; and the
  two documents are equal but for the timestamp.
\<close>

theorem aggregate_sorted_and_deterministic:
  assumes "mset l2 = mset l1"
    and "isdir w"
    and "filter is_json_name l1 \<noteq> []"
    and "list_all (\<lambda>f. \<not> isl (load w (path_join (base_dir w) f))) (filter is_json_name l1)"
    and "write_result w = WriteOk"
  shows "\<exists>names tokens doc1 doc2.
      sorted names \<and> mset names = mset (filter is_json_name l1)
    \<and> map (\<lambda>f. load w (path_join (base_dir w) f)) names = map Inr tokens
    \<and> doc1 = PDict [(''name'', PStr ''Monad Mainnet''),
                   (''logoURI'', PStr ''https://raw.githubusercontent.com/monad-crypto/token-list/refs/heads/main/assets/monad.svg''),
                   (''keywords'', PList [PStr ''monad mainnet'']),
                   (''timestamp'', PStr t1),
                   (''tokens'', PList tokens),
                   (''version'', PDict [(''major'', PInt 0), (''minor'', PInt 0), (''patch'', PInt 1)])]
    \<and> doc2 = PDict [(''name'', PStr ''Monad Mainnet''),
                   (''logoURI'', PStr ''https://raw.githubusercontent.com/monad-crypto/token-list/refs/heads/main/assets/monad.svg''),
                   (''keywords'', PList [PStr ''monad mainnet'']),
                   (''timestamp'', PStr t2),
                   (''tokens'', PList tokens),
                   (''version'', PDict [(''major'', PInt 0), (''minor'', PInt 0), (''patch'', PInt 1)])]
    \<and> generate_main (w\<lparr>listdir := l1, now := t1\<rparr>) fs =
        (Returned PNone, [Adding (length names), Created ''tokenlist-mainnet.json''],
         fs(''tokenlist-mainnet.json'' \<mapsto> Document doc1))
    \<and> generate_main (w\<lparr>listdir := l2, now := t2\<rparr>) fs =
        (Returned PNone, [Adding (length names), Created ''tokenlist-mainnet.json''],
         fs(''tokenlist-mainnet.json'' \<mapsto> Document doc2))
    \<and> without_timestamp doc1 = without_timestamp doc2
    \<and> keys doc1 = [''name'', ''logoURI'', ''keywords'', ''timestamp'', ''tokens'', ''version'']
    \<and> keys doc2 = [''name'', ''logoURI'', ''keywords'', ''timestamp'', ''tokens'', ''version'']"
proof -
  define names where "names = filter is_json_name (sort l1)"
  define tokens where "tokens = map (\<lambda>f. projr (load w (path_join (base_dir w) f))) names"
  have s: "sorted names"
    unfolding names_def using sorted_filter [of "\<lambda>x. x" "sort l1" is_json_name] by simp
  have m: "mset names = mset (filter is_json_name l1)"
    by (simp add: names_def)
  have set_eq: "set names = set (filter is_json_name l1)"
    using m by (rule mset_eq_setD)
  have ne: "names \<noteq> []"
    using set_eq assms(3) by (metis set_empty)
  have ok: "list_all (\<lambda>f. \<not> isl (load w (path_join (base_dir w) f))) names"
    using assms(4) set_eq unfolding list_all_iff by blast
  have loads: "map (\<lambda>f. load w (path_join (base_dir w) f)) names = map Inr tokens"
    using ok unfolding tokens_def list_all_iff by (auto simp: isl_def)
  have j1: "json_files (w\<lparr>listdir := l1, now := t1\<rparr>) = names"
    by (simp add: json_files_def names_def)
  have j2: "json_files (w\<lparr>listdir := l2, now := t2\<rparr>) = names"
    using sort_permutation [OF assms(1)] by (simp add: json_files_def names_def)
  have r1: "generate_main (w\<lparr>listdir := l1, now := t1\<rparr>) fs =
        (Returned PNone, [Adding (length names), Created ''tokenlist-mainnet.json''],
         fs(''tokenlist-mainnet.json'' \<mapsto> Document (registry_data tokens t1)))"
    using generate_main_all_parse [of "w\<lparr>listdir := l1, now := t1\<rparr>" fs] assms(2,5) ne ok
    by (simp add: j1 tokens_def file_out_def)
  have r2: "generate_main (w\<lparr>listdir := l2, now := t2\<rparr>) fs =
        (Returned PNone, [Adding (length names), Created ''tokenlist-mainnet.json''],
         fs(''tokenlist-mainnet.json'' \<mapsto> Document (registry_data tokens t2)))"
    using generate_main_all_parse [of "w\<lparr>listdir := l2, now := t2\<rparr>" fs] assms(2,5) ne ok
    by (simp add: j2 tokens_def file_out_def)
  have d1: "registry_data tokens t1 = PDict [(''name'', PStr ''Monad Mainnet''),
          (''logoURI'', PStr ''https://raw.githubusercontent.com/monad-crypto/token-list/refs/heads/main/assets/monad.svg''),
          (''keywords'', PList [PStr ''monad mainnet'']),
          (''timestamp'', PStr t1),
          (''tokens'', PList tokens),
          (''version'', PDict [(''major'', PInt 0), (''minor'', PInt 0), (''patch'', PInt 1)])]"
    and d2: "registry_data tokens t2 = PDict [(''name'', PStr ''Monad Mainnet''),
          (''logoURI'', PStr ''https://raw.githubusercontent.com/monad-crypto/token-list/refs/heads/main/assets/monad.svg''),
          (''keywords'', PList [PStr ''monad mainnet'']),
          (''timestamp'', PStr t2),
          (''tokens'', PList tokens),
          (''version'', PDict [(''major'', PInt 0), (''minor'', PInt 0), (''patch'', PInt 1)])]"
    by (simp_all add: registry_data_def)
  show ?thesis
    using s m loads r1 r2 registry_data_untimed [of tokens t1 t2]
      registry_data_keys [of tokens t1] registry_data_keys [of tokens t2]
    unfolding d1 d2 by blast
qed

lemma two_files_loads:
  "load (example_world two_files us) (path_join (base_dir (example_world two_files us)) ''AAA.json'')
     = Inr (PDict (example_record 143 18 ''https://down.example/logo.png''))"
  "load (example_world two_files us) (path_join (base_dir (example_world two_files us)) ''ZZZ.json'')
     = Inr (PDict (example_record 143 3 ''https://x/logo.png''))"
  by (simp_all add: example_world_def two_files_def basename_def path_join_def
      startswith_def endswith_def)

theorem aggregate_sorted_and_deterministic_witness:
  "generate_main ((example_world two_files [])
       \<lparr>listdir := [''ZZZ.json'', ''AAA.json''], now := ''2025-01-01T00:00:00+00:00''\<rparr>) Map.empty =
     (Returned PNone, [Adding 2, Created ''tokenlist-mainnet.json''],
      [''tokenlist-mainnet.json'' \<mapsto> Document
         (PDict [(''name'', PStr ''Monad Mainnet''),
                 (''logoURI'', PStr ''https://raw.githubusercontent.com/monad-crypto/token-list/refs/heads/main/assets/monad.svg''),
                 (''keywords'', PList [PStr ''monad mainnet'']),
                 (''timestamp'', PStr ''2025-01-01T00:00:00+00:00''),
                 (''tokens'', PList [PDict (example_record 143 18 ''https://down.example/logo.png''),
                 PDict (example_record 143 3 ''https://x/logo.png'')]),
                 (''version'', PDict [(''major'', PInt 0), (''minor'', PInt 0), (''patch'', PInt 1)])])])
   \<and> generate_main ((example_world two_files [])
       \<lparr>listdir := [''AAA.json'', ''ZZZ.json''], now := ''2025-06-30T12:00:00+00:00''\<rparr>) Map.empty =
     (Returned PNone, [Adding 2, Created ''tokenlist-mainnet.json''],
      [''tokenlist-mainnet.json'' \<mapsto> Document
         (PDict [(''name'', PStr ''Monad Mainnet''),
                 (''logoURI'', PStr ''https://raw.githubusercontent.com/monad-crypto/token-list/refs/heads/main/assets/monad.svg''),
                 (''keywords'', PList [PStr ''monad mainnet'']),
                 (''timestamp'', PStr ''2025-06-30T12:00:00+00:00''),
                 (''tokens'', PList [PDict (example_record 143 18 ''https://down.example/logo.png''),
                 PDict (example_record 143 3 ''https://x/logo.png'')]),
                 (''version'', PDict [(''major'', PInt 0), (''minor'', PInt 0), (''patch'', PInt 1)])])])"
proof -
  let ?w = "example_world two_files []"
  let ?l1 = "[''ZZZ.json'', ''AAA.json'']"
  let ?l2 = "[''AAA.json'', ''ZZZ.json'']"
  have json: "filter is_json_name ?l1 = ?l1"
    by (simp add: is_json_name_def endswith_def)
  have h1: "mset ?l2 = mset ?l1" by simp
  have h2: "isdir ?w" and h5: "write_result ?w = WriteOk"
    by (simp_all add: example_world_def)
  have h3: "filter is_json_name ?l1 \<noteq> []"
    unfolding json by simp
  have h4: "list_all (\<lambda>f. \<not> isl (load ?w (path_join (base_dir ?w) f))) (filter is_json_name ?l1)"
    unfolding json by (simp add: two_files_loads)
  obtain names tokens doc1 doc2 where
    s: "sorted names" and m: "mset names = mset (filter is_json_name ?l1)"
    and l: "map (\<lambda>f. load ?w (path_join (base_dir ?w) f)) names = map Inr tokens"
    and d1: "doc1 = PDict [(''name'', PStr ''Monad Mainnet''),
                 (''logoURI'', PStr ''https://raw.githubusercontent.com/monad-crypto/token-list/refs/heads/main/assets/monad.svg''),
                 (''keywords'', PList [PStr ''monad mainnet'']),
                 (''timestamp'', PStr ''2025-01-01T00:00:00+00:00''),
                 (''tokens'', PList tokens),
                 (''version'', PDict [(''major'', PInt 0), (''minor'', PInt 0), (''patch'', PInt 1)])]"
    and d2: "doc2 = PDict [(''name'', PStr ''Monad Mainnet''),
                 (''logoURI'', PStr ''https://raw.githubusercontent.com/monad-crypto/token-list/refs/heads/main/assets/monad.svg''),
                 (''keywords'', PList [PStr ''monad mainnet'']),
                 (''timestamp'', PStr ''2025-06-30T12:00:00+00:00''),
                 (''tokens'', PList tokens),
                 (''version'', PDict [(''major'', PInt 0), (''minor'', PInt 0), (''patch'', PInt 1)])]"
    and r1: "generate_main (?w\<lparr>listdir := ?l1, now := ''2025-01-01T00:00:00+00:00''\<rparr>) Map.empty =
        (Returned PNone, [Adding (length names), Created ''tokenlist-mainnet.json''],
         [''tokenlist-mainnet.json'' \<mapsto> Document doc1])"
    and r2: "generate_main (?w\<lparr>listdir := ?l2, now := ''2025-06-30T12:00:00+00:00''\<rparr>) Map.empty =
        (Returned PNone, [Adding (length names), Created ''tokenlist-mainnet.json''],
         [''tokenlist-mainnet.json'' \<mapsto> Document doc2])"
    using aggregate_sorted_and_deterministic [OF h1 h2 h3 h4 h5,
        of "''2025-01-01T00:00:00+00:00''" "''2025-06-30T12:00:00+00:00''" Map.empty]
    by blast
  have "sort ?l1 = names"
    using m s unfolding json by (rule properties_for_sort)
  then have names: "names = ?l2" by simp
  have tokens: "tokens = [PDict (example_record 143 18 ''https://down.example/logo.png''),
          PDict (example_record 143 3 ''https://x/logo.png'')]"
    using l unfolding names by (auto simp: two_files_loads)
  show ?thesis using r1 r2 unfolding d1 d2 names tokens by simp
qed

section \<open>The three fetches of a token's metadata\<close>





































end
